theory Spec2Isabelle
  imports Main "HOL-Library.Char_ord" "HOL-Library.List_Lexorder"
begin

section \<open>Python values and errors\<close>

text \<open>
  Every value that travels through the program is decoded JSON: the pages of the delta
  feed, the drive items stored in the cache, the lists of child names, the responses of
  the token endpoint. Python's \<^verbatim>\<open>None\<close> is \<open>JNull\<close>, a \<^verbatim>\<open>dict\<close> is an
  association list read through \<open>map_of\<close>. Numbers are the integers; the fractional
  numbers of JSON are left out.
\<close>

datatype json =
    JNull
  | JBool bool
  | JNum int
  | JStr string
  | JArr "json list"
  | JObj "(string \<times> json) list"

type_synonym dict = "(string \<times> json) list"

text \<open>The exceptions the sources raise, explicitly or through a failing builtin.\<close>

datatype error =
    KeyError
  | ValueError
  | TypeError
  | AttributeError
  | AssertionError
  | OverflowError
  | IntegrityError
  | NoTokenError
  | APIError dict
  | AuthorizationTimeoutError
  | AuthorizationCanceledError

text \<open>\<^verbatim>\<open>key in d\<close> and \<^verbatim>\<open>d[key]\<close> on a dict.\<close>

definition has_key :: "string \<Rightarrow> dict \<Rightarrow> bool" where
  "has_key k d = (map_of d k \<noteq> None)"

definition getitem :: "dict \<Rightarrow> string \<Rightarrow> error + json" where
  "getitem d k = (case map_of d k of None \<Rightarrow> Inl KeyError | Some v \<Rightarrow> Inr v)"

text \<open>Python truthiness, as used by \<^verbatim>\<open>assert x\<close>, \<^verbatim>\<open>while x\<close> and \<^verbatim>\<open>x or y\<close>.\<close>

fun truthy :: "json \<Rightarrow> bool" where
  "truthy JNull = False"
| "truthy (JBool b) = b"
| "truthy (JNum n) = (n \<noteq> 0)"
| "truthy (JStr s) = (s \<noteq> [])"
| "truthy (JArr xs) = (xs \<noteq> [])"
| "truthy (JObj d) = (d \<noteq> [])"

text \<open>
  \<^verbatim>\<open>s.partition(c)\<close> and \<^verbatim>\<open>s.rpartition(c)\<close> for a one-character separator: the
  text before the first (last) separator, the separator, the text after it. Without a
  separator \<^verbatim>\<open>partition\<close> gives \<^verbatim>\<open>(s, '', '')\<close> and \<^verbatim>\<open>rpartition\<close> gives
  \<^verbatim>\<open>('', '', s)\<close>.
\<close>

definition partition_str :: "char \<Rightarrow> string \<Rightarrow> string \<times> string \<times> string" where
  "partition_str c s =
     (case dropWhile (\<lambda>x. x \<noteq> c) s of
        [] \<Rightarrow> (s, [], [])
      | _ # back \<Rightarrow> (takeWhile (\<lambda>x. x \<noteq> c) s, [c], back))"

definition rpartition :: "char \<Rightarrow> string \<Rightarrow> string \<times> string \<times> string" where
  "rpartition c s =
     (case dropWhile (\<lambda>x. x \<noteq> c) (rev s) of
        [] \<Rightarrow> ([], [], s)
      | _ # front \<Rightarrow> (rev front, [c], rev (takeWhile (\<lambda>x. x \<noteq> c) (rev s))))"

section \<open>The drive index (fsapi.py)\<close>

text \<open>
  The cache of one drive is a mutable mapping from string keys to JSON values. Three
  namespaces share it: the item of path \<open>p\<close> is stored under \<open>p\<close> itself, the names of its
  children under \<^verbatim>\<open>'c' + p\<close>, the delta cursor under \<^verbatim>\<open>'delta'\<close>; a content tag is read
  from \<^verbatim>\<open>'t' + p\<close>.
\<close>

type_synonym cache = "string \<rightharpoonup> json"

text \<open>\<^verbatim>\<open>cache.get(k, default)\<close> and \<^verbatim>\<open>cache.pop(k)\<close> (which raises on a missing key).\<close>

definition cache_get :: "cache \<Rightarrow> string \<Rightarrow> json \<Rightarrow> json" where
  "cache_get c k dflt = (case c k of None \<Rightarrow> dflt | Some v \<Rightarrow> v)"

definition cache_pop :: "string \<Rightarrow> cache \<Rightarrow> (error + json) \<times> cache" where
  "cache_pop k c = (case c k of None \<Rightarrow> (Inl KeyError, c) | Some v \<Rightarrow> (Inr v, c(k := None)))"

text \<open>
  \<^verbatim>\<open>_get_path\<close>: a root item maps to \<^verbatim>\<open>'/'\<close>; any other item to the text after the
  first colon of its parent reference's path, a slash, and its name. The subscripts and
  the method call are evaluated left to right, each with its own failure.
\<close>

definition get_path :: "dict \<Rightarrow> error + string" where
  "get_path item =
     (if has_key ''root'' item then Inr ''/''
      else case map_of item ''parentReference'' of
        None \<Rightarrow> Inl KeyError
      | Some (JObj pr) \<Rightarrow>
          (case map_of pr ''path'' of
             None \<Rightarrow> Inl KeyError
           | Some (JStr p) \<Rightarrow>
               (case map_of item ''name'' of
                  None \<Rightarrow> Inl KeyError
                | Some (JStr n) \<Rightarrow> Inr (snd (snd (partition_str CHR '':'' p)) @ ''/'' @ n)
                | Some _ \<Rightarrow> Inl TypeError)
           | Some _ \<Rightarrow> Inl AttributeError)
      | Some _ \<Rightarrow> Inl TypeError)"

text \<open>
  \<^verbatim>\<open>parchildren.append(x)\<close> and \<^verbatim>\<open>parchildren.remove(x)\<close> on the value read from
  the cache: only a list has these methods; \<^verbatim>\<open>remove\<close> deletes the first occurrence and
  raises \<^verbatim>\<open>ValueError\<close> when there is none. Names are strings, and a string equals
  nothing but the same string.
\<close>

definition list_append :: "json \<Rightarrow> json \<Rightarrow> error + json" where
  "list_append l x = (case l of JArr xs \<Rightarrow> Inr (JArr (xs @ [x])) | _ \<Rightarrow> Inl AttributeError)"

definition list_remove :: "json \<Rightarrow> json \<Rightarrow> error + json" where
  "list_remove l x =
     (case l of
        JArr xs \<Rightarrow> (if x \<in> set xs then Inr (JArr (remove1 x xs)) else Inl ValueError)
      | _ \<Rightarrow> Inl AttributeError)"

text \<open>
  \<^verbatim>\<open>GraphDrive._deleted\<close>. The result pairs the exception raised, if any, with the cache
  as the call leaves it: the writes made before a failure stay.
\<close>

definition deleted :: "dict \<Rightarrow> cache \<Rightarrow> error option \<times> cache" where
  "deleted item c =
     (case get_path item of
        Inl e \<Rightarrow> (Some e, c)
      | Inr path \<Rightarrow>
          if c path = None then (None, c)
          else
            let c1 = snd (cache_pop path c);
                (r2, c2) = (if has_key ''folder'' item then cache_pop (''c'' @ path) c1
                            else (Inr JNull, c1))
            in case r2 of
                 Inl e \<Rightarrow> (Some e, c2)
               | Inr _ \<Rightarrow>
                   let parent = fst (rpartition CHR ''/'' path);
                       paritem = cache_get c2 parent JNull
                   in if \<not> truthy paritem then (Some AssertionError, c2)
                      else
                        let parchildren = cache_get c2 (''c'' @ parent) (JArr [])
                        in case parchildren of
                             JArr _ \<Rightarrow>
                               (case getitem item ''name'' of
                                  Inl e \<Rightarrow> (Some e, c2)
                                | Inr n \<Rightarrow>
                                    (case list_remove parchildren n of
                                       Inl e \<Rightarrow> (Some e, c2)
                                     | Inr l \<Rightarrow> (None, c2(''c'' @ parent \<mapsto> l))))
                           | _ \<Rightarrow> (Some AttributeError, c2))"

text \<open>
  \<^verbatim>\<open>GraphDrive._added\<close>: the parent of a top-level path is \<^verbatim>\<open>'/'\<close>
  (\<^verbatim>\<open>rpartition('/')[0] or '/'\<close>); a root item has no parent entry to extend.
\<close>

definition added :: "dict \<Rightarrow> cache \<Rightarrow> error option \<times> cache" where
  "added item c =
     (case get_path item of
        Inl e \<Rightarrow> (Some e, c)
      | Inr path \<Rightarrow>
          let p = fst (rpartition CHR ''/'' path);
              parent = (if p = [] then ''/'' else p)
          in if has_key ''root'' item then (None, c)
             else
               let parchildren = cache_get c (''c'' @ parent) (JArr [])
               in case parchildren of
                    JArr _ \<Rightarrow>
                      (case getitem item ''name'' of
                         Inl e \<Rightarrow> (Some e, c)
                       | Inr n \<Rightarrow>
                           (case list_append parchildren n of
                              Inl e \<Rightarrow> (Some e, c)
                            | Inr l \<Rightarrow> (None, c(''c'' @ parent \<mapsto> l))))
                  | _ \<Rightarrow> (Some AttributeError, c))"

text \<open>
  The body of the \<^verbatim>\<open>for item in items\<close> loop of \<^verbatim>\<open>_poll_with_delta\<close>: a deleted
  item goes to \<open>deleted\<close>; any other item is announced to its parent when its path is new,
  then stored under its path.
\<close>

definition apply_item :: "dict \<Rightarrow> cache \<Rightarrow> error option \<times> cache" where
  "apply_item item c =
     (if has_key ''deleted'' item then deleted item c
      else case get_path item of
        Inl e \<Rightarrow> (Some e, c)
      | Inr path \<Rightarrow>
          let (r, c1) = (if c path = None then added item c else (None, c))
          in case r of
               Some e \<Rightarrow> (Some e, c1)
             | None \<Rightarrow> (None, c1(path \<mapsto> JObj item)))"

text \<open>The loop itself: an exception in one item ends the loop and leaves the rest unapplied.\<close>

fun apply_items :: "dict list \<Rightarrow> cache \<Rightarrow> error option \<times> cache" where
  "apply_items [] c = (None, c)"
| "apply_items (item # items) c =
     (case apply_item item c of
        (Some e, c') \<Rightarrow> (Some e, c')
      | (None, c') \<Rightarrow> apply_items items c')"

text \<open>
  A decoded page of the delta feed: \<^verbatim>\<open>r['value']\<close> (absent when the response carries
  no such key, and then the subscript raises), \<^verbatim>\<open>r.get('@odata.nextLink')\<close>
  (\<^verbatim>\<open>None\<close> when absent) and \<^verbatim>\<open>r['@odata.deltaLink']\<close> when the key is present.
  The changed items are JSON objects.
\<close>

record page =
  pvalue :: "dict list option"
  next_link :: json
  delta_link :: "json option"

text \<open>The setter of \<^verbatim>\<open>_delta_link\<close>, run when the page carries a delta link.\<close>

definition persist_cursor :: "page \<Rightarrow> cache \<Rightarrow> cache" where
  "persist_cursor r c = (case delta_link r of None \<Rightarrow> c | Some d \<Rightarrow> c(''delta'' \<mapsto> d))"

text \<open>
  One pass through the body of \<^verbatim>\<open>while nextlink\<close> after a successful fetch, in the
  order of the source: read the items, read the continuation link, store the delta
  cursor, then apply the items. The loop state is the continuation link and the cache.
\<close>

definition process_page :: "page \<Rightarrow> json \<times> cache \<Rightarrow> error option \<times> json \<times> cache" where
  "process_page r st =
     (case pvalue r of
        None \<Rightarrow> (Some KeyError, st)
      | Some items \<Rightarrow>
          let nextlink = next_link r;
              c1 = persist_cursor r (snd st);
              (e, c2) = apply_items items c1
          in (e, nextlink, c2))"

text \<open>
  A fetch either fails (transport or decode error: logged, slept on, and the same link is
  tried again with nothing changed) or delivers a page.
\<close>

datatype fetch = Failed | Page page

fun poll_step :: "fetch \<Rightarrow> json \<times> cache \<Rightarrow> error option \<times> json \<times> cache" where
  "poll_step Failed st = (None, st)"
| "poll_step (Page r) st = process_page r st"

section \<open>Reading content (fsapi.py, GraphDriveItem)\<close>

text \<open>
  \<^verbatim>\<open>'%d' % n\<close> and \<^verbatim>\<open>'%s' % n\<close> for an integer: its decimal digits, with a minus
  sign when negative.
\<close>

fun str_nat :: "nat \<Rightarrow> string" where
  "str_nat n =
     (if n < 10 then [''0123456789'' ! n]
      else str_nat (n div 10) @ [''0123456789'' ! (n mod 10)])"

declare str_nat.simps [simp del]

definition str_int :: "int \<Rightarrow> string" where
  "str_int i = (if i < 0 then ''-'' @ str_nat (nat (- i)) else str_nat (nat i))"

text \<open>
  \<^verbatim>\<open>k in x\<close> for a string \<open>k\<close> and a decoded JSON value \<open>x\<close>: key membership on a dict,
  element membership on a list, substring search on a string, \<^verbatim>\<open>TypeError\<close> on
  anything else.
\<close>

fun is_substring :: "string \<Rightarrow> string \<Rightarrow> bool" where
  "is_substring k [] = (k = [])"
| "is_substring k (x # xs) = (take (length k) (x # xs) = k \<or> is_substring k xs)"

fun py_in :: "string \<Rightarrow> json \<Rightarrow> error + bool" where
  "py_in k (JObj d) = Inr (has_key k d)"
| "py_in k (JArr xs) = Inr (JStr k \<in> set xs)"
| "py_in k (JStr s) = Inr (is_substring k s)"
| "py_in k _ = Inl TypeError"

text \<open>
  A request is its URL and headers; a response is its status code, its body and, when
  it carries a usable \<^verbatim>\<open>Location\<close> header, the request the session prepares for that
  location. The \<^verbatim>\<open>requests\<close> library sets \<^verbatim>\<open>r.next\<close> (with
  \<^verbatim>\<open>allow_redirects=False\<close>) exactly for a response that has such a header and one of
  the redirect status codes 301, 302, 303, 307, 308.
\<close>

record request =
  url :: string
  headers :: dict

record response =
  status_code :: int
  content :: string
  location :: "request option"

definition next_request :: "response \<Rightarrow> request option" where
  "next_request r =
     (if status_code r \<in> {301, 302, 303, 307, 308} then location r else None)"

text \<open>\<^verbatim>\<open>GraphDriveItem._propurl\<close>.\<close>

definition propurl :: "string \<Rightarrow> string \<Rightarrow> string" where
  "propurl drive_id path =
     (if path = ''/'' then ''https://graph.microsoft.com/v1.0/drives/'' @ drive_id @ ''/root''
      else ''https://graph.microsoft.com/v1.0/drives/'' @ drive_id @ ''/root:'' @ path @ '':'')"

text \<open>
  The value of the \<^verbatim>\<open>range\<close> header: \<^verbatim>\<open>offset or 0\<close>, then the last byte wanted
  when a size is given.
\<close>

definition range_header :: "int option \<Rightarrow> int option \<Rightarrow> string" where
  "range_header offset size' =
     (let off = (case offset of None \<Rightarrow> 0 | Some v \<Rightarrow> v)
      in ''bytes='' @ str_int off @ ''-'' @
         (case size' of
            None \<Rightarrow> []
          | Some sz \<Rightarrow> if sz \<noteq> 0 then str_int (off + sz - 1) else []))"

text \<open>
  The request \<^verbatim>\<open>get_contents\<close> sends: the content URL, an \<^verbatim>\<open>if-none-match\<close>
  header when the cache holds a content tag for the path, and a \<^verbatim>\<open>range\<close> header
  when an offset or a size is given.
\<close>

definition content_request ::
  "string \<Rightarrow> string \<Rightarrow> int option \<Rightarrow> int option \<Rightarrow> cache \<Rightarrow> request" where
  "content_request drive_id path offset size' c =
     (let ctag = cache_get c (''t'' @ path) JNull;
          hs = (if ctag = JNull then [] else [(''if-none-match'', ctag)]);
          hs' = (if offset \<noteq> None \<or> size' \<noteq> None
                 then hs @ [(''range'', JStr (range_header offset size'))]
                 else hs)
      in \<lparr>url = propurl drive_id path @ ''/content'', headers = hs'\<rparr>)"

text \<open>
  \<^verbatim>\<open>GraphDriveItem.get_contents\<close>. The session is a function from requests to
  responses; the result is paired with the requests sent, in order. The returned value
  is \<^verbatim>\<open>None\<close> (a folder, or a status of 400 and above) or bytes.
\<close>

definition get_contents ::
  "(request \<Rightarrow> response) \<Rightarrow> string \<Rightarrow> string \<Rightarrow> int option \<Rightarrow> int option \<Rightarrow> cache
     \<Rightarrow> (error + string option) \<times> request list" where
  "get_contents session drive_id path offset size' c =
     (case c path of
        None \<Rightarrow> (Inl KeyError, [])
      | Some data \<Rightarrow>
          (case py_in ''folder'' data of
             Inl e \<Rightarrow> (Inl e, [])
           | Inr True \<Rightarrow> (Inr None, [])
           | Inr False \<Rightarrow>
               if (case size' of None \<Rightarrow> False | Some sz \<Rightarrow> sz \<le> 0) then (Inr (Some []), [])
               else
                 let req = content_request drive_id path offset size' c;
                     r = session req
                 in if status_code r = 304 then (Inr (Some []), [req])
                    else if status_code r \<ge> 400 then (Inr None, [req])
                    else case next_request r of
                           Some nx \<Rightarrow> (Inr (Some (content (session nx))), [req, nx])
                         | None \<Rightarrow> (Inr (Some (content r)), [req])))"

section \<open>The authenticator (auth.py)\<close>

text \<open>
  The credential of \<^verbatim>\<open>GraphAuth\<close>. \<open>stored_access_token\<close> is the attribute
  \<^verbatim>\<open>_access_token\<close>; a token that is \<^verbatim>\<open>None\<close> is \<open>JNull\<close>. A time is a
  \<^verbatim>\<open>datetime\<close>: the microseconds since \<^verbatim>\<open>datetime.min\<close>, from 0 to
  \<open>datetime_max\<close> (\<^verbatim>\<open>datetime.max\<close>, the last microsecond of the year 9999).
\<close>

record cred =
  client_id :: string
  scopes :: "string list"
  tenant :: string
  stored_access_token :: json
  expires :: int
  refresh_token :: json

text \<open>\<^verbatim>\<open>sep.join(xs)\<close>.\<close>

fun join :: "string \<Rightarrow> string list \<Rightarrow> string" where
  "join sep [] = []"
| "join sep [x] = x"
| "join sep (x # y # ys) = x @ sep @ join sep (y # ys)"

text \<open>
  \<^verbatim>\<open>timedelta(seconds=x)\<close> for a decoded JSON value: a number of seconds (a boolean
  counts as 0 or 1), \<^verbatim>\<open>TypeError\<close> otherwise. A \<^verbatim>\<open>timedelta\<close> holds at most
  999999999 days either way: beyond that the constructor raises \<^verbatim>\<open>OverflowError\<close>.
  The result is in microseconds.
\<close>

fun timedelta_seconds :: "json \<Rightarrow> error + int" where
  "timedelta_seconds (JNum n) =
     (if - 999999999 \<le> n div 86400 \<and> n div 86400 \<le> 999999999 then Inr (n * 1000000)
      else Inl OverflowError)"
| "timedelta_seconds (JBool b) = Inr (if b then 1000000 else 0)"
| "timedelta_seconds _ = Inl TypeError"

text \<open>
  \<^verbatim>\<open>datetime + timedelta\<close>: the sum, or \<^verbatim>\<open>OverflowError\<close> when it falls outside
  the years 1 to 9999.
\<close>

definition datetime_max :: int where
  "datetime_max = 315537897599999999"

definition datetime_add :: "int \<Rightarrow> int \<Rightarrow> error + int" where
  "datetime_add t delta =
     (if 0 \<le> t + delta \<and> t + delta \<le> datetime_max then Inr (t + delta)
      else Inl OverflowError)"

text \<open>A form-encoded POST: the URL and the form fields.\<close>

type_synonym post_request = "string \<times> dict"

definition token_url :: "string \<Rightarrow> string" where
  "token_url tn = ''https://login.microsoftonline.com/'' @ tn @ ''/oauth2/v2.0/token''"

definition refresh_request :: "cred \<Rightarrow> post_request" where
  "refresh_request st =
     (token_url (tenant st),
      [(''client_id'', JStr (client_id st)),
       (''grant_type'', JStr ''refresh_token''),
       (''scope'', JStr (join '' '' (scopes st))),
       (''refresh_token'', refresh_token st)])"

text \<open>
  \<^verbatim>\<open>GraphAuth.refresh\<close>. \<open>post\<close> is the token endpoint (the model covers the runs
  in which it answers with a JSON object) and \<open>now\<close> the clock read when the answer is
  stored. The result is paired with the credential as the call leaves it and with the
  requests sent. The three assignments under the lock happen one after the other, each
  after its own subscript.
\<close>

definition refresh ::
  "(post_request \<Rightarrow> dict) \<Rightarrow> int \<Rightarrow> cred \<Rightarrow> (error + json) \<times> cred \<times> post_request list" where
  "refresh post now st =
     (if refresh_token st = JNull then (Inl NoTokenError, st, [])
      else
        let req = refresh_request st; r = post req
        in if has_key ''error'' r then (Inl (APIError r), st, [req])
           else case getitem r ''expires_in'' of
             Inl e \<Rightarrow> (Inl e, st, [req])
           | Inr x \<Rightarrow>
               (case timedelta_seconds x of
                  Inl e \<Rightarrow> (Inl e, st, [req])
                | Inr delta \<Rightarrow>
                    (case datetime_add now delta of
                       Inl e \<Rightarrow> (Inl e, st, [req])
                     | Inr expiry \<Rightarrow>
                         let st1 = st\<lparr>expires := expiry\<rparr>
                         in case getitem r ''refresh_token'' of
                              Inl e \<Rightarrow> (Inl e, st1, [req])
                            | Inr rt \<Rightarrow>
                                let st2 = st1\<lparr>refresh_token := rt\<rparr>
                                in case getitem r ''access_token'' of
                                     Inl e \<Rightarrow> (Inl e, st2, [req])
                                   | Inr tok \<Rightarrow>
                                       (Inr tok, st2\<lparr>stored_access_token := tok\<rparr>, [req]))))"

text \<open>
  The property \<^verbatim>\<open>GraphAuth.access_token\<close>. \<open>now\<close> is the clock read by the expiry
  test, \<open>now'\<close> the clock read by the renewal.
\<close>

definition access_token ::
  "(post_request \<Rightarrow> dict) \<Rightarrow> int \<Rightarrow> int \<Rightarrow> cred \<Rightarrow> (error + json) \<times> cred \<times> post_request list" where
  "access_token post now now' st =
     (if stored_access_token st = JNull \<and> refresh_token st = JNull
      then (Inl NoTokenError, st, [])
      else if now > expires st \<or> stored_access_token st = JNull
      then (case refresh post now' st of
              (Inl e, st', sent) \<Rightarrow> (Inl e, st', sent)
            | (Inr _, st', sent) \<Rightarrow> (Inr (stored_access_token st'), st', sent))
      else (Inr (stored_access_token st), st, []))"

text \<open>
  The polling loop of \<^verbatim>\<open>GraphAuth.authenticate\<close>. Each pass reads the clock and, while
  the device code has not expired, posts to the token endpoint; the list holds, pass by
  pass, the clock reading and the endpoint's answer. The loop leaves \<^verbatim>\<open>data\<close> as the
  grant, or as \<^verbatim>\<open>None\<close> when the deadline passes. \<open>None\<close> as the result of the
  function means the list ran out while the loop was still polling.
  \<^verbatim>\<open>time.sleep(interval)\<close> needs a number; it first converts the seconds to a
  signed 64-bit count of nanoseconds, raising \<^verbatim>\<open>OverflowError\<close> beyond 9223372036
  seconds either way, and then refuses a negative length with \<^verbatim>\<open>ValueError\<close>.
\<close>

fun sleep :: "json \<Rightarrow> error option" where
  "sleep (JNum n) =
     (if n < - 9223372036 \<or> 9223372036 < n then Some OverflowError
      else if n < 0 then Some ValueError
      else None)"
| "sleep (JBool b) = None"
| "sleep _ = Some TypeError"

fun poll_token :: "int \<Rightarrow> json \<Rightarrow> (int \<times> dict) list \<Rightarrow> (error + dict option) option" where
  "poll_token deadline interval [] = None"
| "poll_token deadline interval ((now, r) # rest) =
     (if \<not> now < deadline then Some (Inr None)
      else if \<not> has_key ''error'' r then Some (Inr (Some r))
      else if map_of r ''error'' = Some (JStr ''authorization_pending'')
      then (case sleep interval of
              Some e \<Rightarrow> Some (Inl e)
            | None \<Rightarrow> poll_token deadline interval rest)
      else if map_of r ''error'' = Some (JStr ''authorization_pending'')
      then Some (Inl AuthorizationCanceledError)
      else Some (Inl (APIError r)))"

text \<open>
  The user is told the code: the callback, when one is passed (it is taken to return),
  gets \<^verbatim>\<open>r['user_code']\<close> and \<^verbatim>\<open>r['verification_uri']\<close>; otherwise
  \<^verbatim>\<open>r['message']\<close> is printed.
\<close>

definition announce :: "bool \<Rightarrow> dict \<Rightarrow> error option" where
  "announce has_callback r =
     (if has_callback
      then (case getitem r ''user_code'' of
              Inl e \<Rightarrow> Some e
            | Inr _ \<Rightarrow>
                (case getitem r ''verification_uri'' of Inl e \<Rightarrow> Some e | Inr _ \<Rightarrow> None))
      else (case getitem r ''message'' of Inl e \<Rightarrow> Some e | Inr _ \<Rightarrow> None))"

text \<open>
  \<^verbatim>\<open>GraphAuth.authenticate\<close>: \<open>r0\<close> is the answer to the device-code request, \<open>t0\<close>
  the clock read after it, \<open>has_callback\<close> whether a callback was passed, \<open>polls\<close> the
  passes of the loop and \<open>t1\<close> the clock read when the grant is stored.
\<close>

definition authenticate ::
  "dict \<Rightarrow> int \<Rightarrow> bool \<Rightarrow> (int \<times> dict) list \<Rightarrow> int \<Rightarrow> cred \<Rightarrow> ((error + json) \<times> cred) option" where
  "authenticate r0 t0 has_callback polls t1 st =
     (if has_key ''error'' r0 then Some (Inl (APIError r0), st)
      else case getitem r0 ''expires_in'' of
        Inl e \<Rightarrow> Some (Inl e, st)
      | Inr x \<Rightarrow>
          (case timedelta_seconds x of
             Inl e \<Rightarrow> Some (Inl e, st)
           | Inr delta \<Rightarrow>
               case datetime_add t0 delta of
                 Inl e \<Rightarrow> Some (Inl e, st)
               | Inr deadline \<Rightarrow>
               case announce has_callback r0 of
                 Some e \<Rightarrow> Some (Inl e, st)
               | None \<Rightarrow>
               case getitem r0 ''device_code'' of
                 Inl e \<Rightarrow> Some (Inl e, st)
               | Inr device_code \<Rightarrow>
               case getitem r0 ''interval'' of
                 Inl e \<Rightarrow> Some (Inl e, st)
               | Inr interval \<Rightarrow>
                   (case poll_token deadline interval polls of
                      None \<Rightarrow> None
                    | Some (Inl e) \<Rightarrow> Some (Inl e, st)
                    | Some (Inr None) \<Rightarrow> Some (Inl AuthorizationTimeoutError, st)
                    | Some (Inr (Some data)) \<Rightarrow>
                        (case getitem data ''expires_in'' of
                           Inl e \<Rightarrow> Some (Inl e, st)
                         | Inr y \<Rightarrow>
                             (case timedelta_seconds y of
                                Inl e \<Rightarrow> Some (Inl e, st)
                              | Inr life \<Rightarrow>
                                  (case datetime_add t1 life of
                                     Inl e \<Rightarrow> Some (Inl e, st)
                                   | Inr expiry \<Rightarrow>
                                       let st1 = st\<lparr>expires := expiry\<rparr>
                                       in case getitem data ''access_token'' of
                                            Inl e \<Rightarrow> Some (Inl e, st1)
                                          | Inr tok \<Rightarrow>
                                              let st2 = st1\<lparr>stored_access_token := tok\<rparr>;
                                                  rt = (case map_of data ''refresh_token'' of
                                                          None \<Rightarrow> refresh_token st2
                                                        | Some v \<Rightarrow> v)
                                              in Some (Inr tok, st2\<lparr>refresh_token := rt\<rparr>)))))))"

section \<open>The persistent cache (dbdict.py)\<close>

text \<open>
  The table \<^verbatim>\<open>(key BLOB UNIQUE PRIMARY KEY, value BLOB)\<close> is the list of its rows.
  Every statement is committed as soon as it has run, so the table is the whole state;
  the connections of the threads all read and write this one table.
\<close>

type_synonym bytes = string

type_synonym table = "(bytes \<times> bytes) list"

text \<open>
  The three codecs given to the constructor (\<^verbatim>\<open>pickle\<close> by default, JSON for the
  drive caches). Keys and values are Python objects of one type \<open>'a\<close>.
\<close>

record 'a codec =
  dumps :: "'a \<Rightarrow> bytes"
  key_loads :: "bytes \<Rightarrow> 'a"
  value_loads :: "bytes \<Rightarrow> 'a"

text \<open>
  The four statements. \<^verbatim>\<open>SELECT value ... WHERE key=?\<close> followed by
  \<^verbatim>\<open>fetchone()\<close> gives the first matching row or \<^verbatim>\<open>None\<close>; \<^verbatim>\<open>INSERT\<close> fails
  on a key the table already holds.
\<close>

definition select_value :: "bytes \<Rightarrow> table \<Rightarrow> bytes option" where
  "select_value k tbl = map_option snd (find (\<lambda>row. fst row = k) tbl)"

definition update_row :: "bytes \<Rightarrow> bytes \<Rightarrow> table \<Rightarrow> table" where
  "update_row k v tbl = map (\<lambda>row. if fst row = k then (k, v) else row) tbl"

definition insert_row :: "bytes \<Rightarrow> bytes \<Rightarrow> table \<Rightarrow> error + table" where
  "insert_row k v tbl = (if k \<in> fst ` set tbl then Inl IntegrityError else Inr (tbl @ [(k, v)]))"

definition delete_row :: "bytes \<Rightarrow> table \<Rightarrow> table" where
  "delete_row k tbl = filter (\<lambda>row. fst row \<noteq> k) tbl"

text \<open>\<^verbatim>\<open>DBDict.__getitem__\<close>.\<close>

definition DBDict_getitem :: "'a codec \<Rightarrow> 'a \<Rightarrow> table \<Rightarrow> error + 'a" where
  "DBDict_getitem cd key tbl =
     (case select_value (dumps cd key) tbl of
        None \<Rightarrow> Inl KeyError
      | Some row \<Rightarrow> Inr (value_loads cd row))"

text \<open>
  \<^verbatim>\<open>key in self\<close>, inherited from \<^verbatim>\<open>Mapping\<close>: the subscript is tried and a
  \<^verbatim>\<open>KeyError\<close> means no.
\<close>

definition DBDict_contains :: "'a codec \<Rightarrow> 'a \<Rightarrow> table \<Rightarrow> bool" where
  "DBDict_contains cd key tbl =
     (case DBDict_getitem cd key tbl of Inl _ \<Rightarrow> False | Inr _ \<Rightarrow> True)"

text \<open>\<^verbatim>\<open>DBDict.__setitem__\<close> and \<^verbatim>\<open>DBDict.__delitem__\<close>: the exception, if any, and the table left.\<close>

definition DBDict_setitem :: "'a codec \<Rightarrow> 'a \<Rightarrow> 'a \<Rightarrow> table \<Rightarrow> error option \<times> table" where
  "DBDict_setitem cd key val tbl =
     (let key_pickled = dumps cd key; value_pickled = dumps cd val
      in if DBDict_contains cd key tbl then (None, update_row key_pickled value_pickled tbl)
         else case insert_row key_pickled value_pickled tbl of
                Inl e \<Rightarrow> (Some e, tbl)
              | Inr tbl' \<Rightarrow> (None, tbl'))"

definition DBDict_delitem :: "'a codec \<Rightarrow> 'a \<Rightarrow> table \<Rightarrow> error option \<times> table" where
  "DBDict_delitem cd key tbl =
     (if \<not> DBDict_contains cd key tbl then (Some KeyError, tbl)
      else (None, delete_row (dumps cd key) tbl))"

text \<open>
  \<^verbatim>\<open>SELECT key FROM table\<close>: SQLite answers it from the index of the unique key, so
  the keys come in the order of their bytes (byte by byte, a proper prefix first),
  whatever the order of insertion.
\<close>

definition select_keys :: "table \<Rightarrow> bytes list" where
  "select_keys tbl = sort (map fst tbl)"

text \<open>\<^verbatim>\<open>DBDict.__iter__\<close>: the keys selected, decoded.\<close>

definition DBDict_iter :: "'a codec \<Rightarrow> table \<Rightarrow> 'a list" where
  "DBDict_iter cd tbl = map (key_loads cd) (select_keys tbl)"

text \<open>
  \<^verbatim>\<open>DBDict.__len__\<close> executes \<^verbatim>\<open>SELECT key FROM table\<close> and returns
  \<^verbatim>\<open>max(cur.rowcount, 0)\<close>. What \<^verbatim>\<open>rowcount\<close> holds after a \<^verbatim>\<open>SELECT\<close> is the
  database driver's business, so it is a parameter: a function of the rows selected.
  The default driver, and the only one the repository uses, is Python's \<^verbatim>\<open>sqlite3\<close>,
  whose cursors report \<^verbatim>\<open>-1\<close> after every statement that is not an \<^verbatim>\<open>INSERT\<close>,
  \<^verbatim>\<open>UPDATE\<close>, \<^verbatim>\<open>DELETE\<close> or \<^verbatim>\<open>REPLACE\<close>.
\<close>

definition DBDict_len :: "(bytes list \<Rightarrow> int) \<Rightarrow> table \<Rightarrow> int" where
  "DBDict_len rowcount tbl = max (rowcount (select_keys tbl)) 0"

definition sqlite3_rowcount :: "bytes list \<Rightarrow> int" where
  "sqlite3_rowcount selected = - 1"

text \<open>A codec for keys and values that are byte strings already.\<close>

definition raw_codec :: "string codec" where
  "raw_codec = \<lparr>dumps = (\<lambda>s. s), key_loads = (\<lambda>b. b), value_loads = (\<lambda>b. b)\<rparr>"

section \<open>Scenario data\<close>

text \<open>The items of the scenarios: the root, a folder \<^verbatim>\<open>docs\<close> under it, and its deletion.\<close>

definition root_item :: dict where
  "root_item = [(''id'', JStr ''1''), (''root'', JBool True)]"

definition docs_item :: dict where
  "docs_item = [(''id'', JStr ''2''),
                (''parentReference'', JObj [(''path'', JStr ''/drive/root:'')]),
                (''name'', JStr ''docs''),
                (''folder'', JObj [])]"

definition docs_deleted :: dict where
  "docs_deleted = [(''id'', JStr ''2''),
                   (''parentReference'', JObj [(''path'', JStr ''/drive/root:'')]),
                   (''name'', JStr ''docs''),
                   (''deleted'', JObj [])]"

text \<open>
  A deleted item as it arrives without a name or a parent path, the same deletion of
  \<^verbatim>\<open>docs\<close> carrying its folder facet, and a file.
\<close>

definition bare_deleted :: dict where
  "bare_deleted = [(''id'', JStr ''2''),
                   (''deleted'', JObj [(''state'', JStr ''deleted'')]),
                   (''parentReference'', JObj [(''driveId'', JStr ''b!1''), (''id'', JStr ''1'')])]"

definition docs_folder_deleted :: dict where
  "docs_folder_deleted = docs_deleted @ [(''folder'', JObj [])]"

definition report_item :: dict where
  "report_item = [(''id'', JStr ''3''),
                  (''parentReference'', JObj [(''path'', JStr ''/drive/root:/docs'')]),
                  (''name'', JStr ''report.txt''),
                  (''file'', JObj []),
                  (''size'', JNum 100)]"

text \<open>
  The pages of the scenarios: the first lists the root and \<^verbatim>\<open>docs\<close>, the later ones
  report the deletion of \<^verbatim>\<open>docs\<close>. Each is terminal: it carries a delta link and no
  continuation link.
\<close>

definition first_page :: page where
  "first_page = \<lparr>pvalue = Some [root_item, docs_item], next_link = JNull,
                  delta_link = Some (JStr ''cursor-1'')\<rparr>"

definition deletion_page :: "dict \<Rightarrow> page" where
  "deletion_page item = \<lparr>pvalue = Some [item], next_link = JNull,
                          delta_link = Some (JStr ''cursor-2'')\<rparr>"

text \<open>The index after the first page: the cursor, the root, its children and \<^verbatim>\<open>docs\<close>.\<close>

definition index_with_docs :: cache where
  "index_with_docs = [''delta'' \<mapsto> JStr ''cursor-1'', ''/'' \<mapsto> JObj root_item,
                      ''c/'' \<mapsto> JArr [JStr ''docs''], ''/docs'' \<mapsto> JObj docs_item]"

text \<open>An index that holds the file \<^verbatim>\<open>/docs/report.txt\<close>.\<close>

definition index_with_report :: cache where
  "index_with_report = [''/docs/report.txt'' \<mapsto> JObj report_item]"

text \<open>Sessions that answer every request alike: with partial content, and with not modified.\<close>

definition partial_session :: "request \<Rightarrow> response" where
  "partial_session req = \<lparr>status_code = 206, content = ''hello'', location = None\<rparr>"

definition unmodified_session :: "request \<Rightarrow> response" where
  "unmodified_session req = \<lparr>status_code = 304, content = [], location = None\<rparr>"

text \<open>A credential with an expired access token and no refresh token, and one with both.\<close>

definition expired_cred :: cred where
  "expired_cred = \<lparr>client_id = ''app'', scopes = [''Files.Read''], tenant = ''organizations'',
                    stored_access_token = JStr ''old'', expires = 100, refresh_token = JNull\<rparr>"

definition full_cred :: cred where
  "full_cred = \<lparr>client_id = ''app'', scopes = [''Files.Read'', ''offline_access''],
                 tenant = ''organizations'',
                 stored_access_token = JStr ''old'', expires = 100, refresh_token = JStr ''r1''\<rparr>"

text \<open>Answers of the token endpoint: a grant, a rejection, and a user's refusal.\<close>

definition grant :: dict where
  "grant = [(''access_token'', JStr ''new''), (''expires_in'', JNum 3600),
            (''refresh_token'', JStr ''r2'')]"

text \<open>A grant whose lifetime, 100000000000000 seconds, is more than a \<^verbatim>\<open>timedelta\<close> holds.\<close>

definition endless_grant :: dict where
  "endless_grant = [(''access_token'', JStr ''new''), (''expires_in'', JNum 100000000000000),
                    (''refresh_token'', JStr ''r2'')]"

definition invalid_grant :: dict where
  "invalid_grant = [(''error'', JStr ''invalid_grant'')]"

definition declined :: dict where
  "declined = [(''error'', JStr ''authorization_declined'')]"

definition device_code_answer :: dict where
  "device_code_answer = [(''user_code'', JStr ''ABCD''),
                         (''verification_uri'', JStr ''https://microsoft.com/devicelogin''),
                         (''message'', JStr ''enter the code''),
                         (''device_code'', JStr ''dc''),
                         (''expires_in'', JNum 900),
                         (''interval'', JNum 5)]"

section \<open>Properties of the drive index\<close>

text \<open>The facts that evaluate the index operations on the scenario data.\<close>

lemmas index_eval =
  apply_item_def get_path_def added_def deleted_def has_key_def getitem_def
  partition_str_def rpartition_def cache_get_def cache_pop_def list_append_def list_remove_def
  process_page_def persist_cursor_def

text \<open>
  A derived path is \<^verbatim>\<open>'/'\<close> or contains the slash put before the name, so it is never
  the key of the cursor; nor is a children key, which starts with \<^verbatim>\<open>'c'\<close>.
\<close>

lemma get_path_has_slash: "get_path item = Inr path \<Longrightarrow> CHR ''/'' \<in> set path"
  by (auto simp: get_path_def split: if_splits option.splits json.splits)

lemma get_path_not_delta: "get_path item = Inr path \<Longrightarrow> path \<noteq> ''delta''"
  using get_path_has_slash by fastforce

lemma deleted_keeps_delta: "deleted item c = (e, c') \<Longrightarrow> c' ''delta'' = c ''delta''"
  by (auto simp: deleted_def cache_pop_def Let_def dest: get_path_not_delta
      split: sum.splits if_splits option.splits prod.splits json.splits)

lemma added_keeps_delta: "added item c = (e, c') \<Longrightarrow> c' ''delta'' = c ''delta''"
  by (auto simp: added_def Let_def split: sum.splits if_splits option.splits json.splits)

lemma apply_item_keeps_delta: "apply_item item c = (e, c') \<Longrightarrow> c' ''delta'' = c ''delta''"
  by (auto simp: apply_item_def dest: deleted_keeps_delta added_keeps_delta get_path_not_delta
      split: sum.splits if_splits option.splits prod.splits)

lemma apply_items_keeps_delta: "apply_items items c = (e, c') \<Longrightarrow> c' ''delta'' = c ''delta''"
proof (induction items arbitrary: c)
  case Nil
  then show ?case by simp
next
  case (Cons item items)
  obtain e1 c1 where step: "apply_item item c = (e1, c1)"
    by (cases "apply_item item c")
  then have kept: "c1 ''delta'' = c ''delta''"
    by (rule apply_item_keeps_delta)
  show ?case
  proof (cases e1)
    case None
    with Cons.prems step have "apply_items items c1 = (e, c')" by simp
    then have "c' ''delta'' = c1 ''delta''" by (rule Cons.IH)
    with kept show ?thesis by simp
  next
    case (Some err)
    with Cons.prems step have "c' = c1" by simp
    with kept show ?thesis by simp
  qed
qed

lemma first_page_run:
  "process_page first_page (JStr ''start'', Map.empty) = (None, JNull, index_with_docs)"
  by (simp add: index_eval first_page_def root_item_def docs_item_def index_with_docs_def)

text \<open>
  C10. A deletion whose derived path has no entry in the index changes nothing and raises
  nothing: the loop body, and \<^verbatim>\<open>_deleted\<close> under it, return the cache as it was (every
  key of it: items, children, cursor and content tags).
\<close>

theorem deleted_absent_noop:
  assumes "has_key ''deleted'' item" and "get_path item = Inr path" and "c path = None"
  shows "deleted item c = (None, c) \<and> apply_item item c = (None, c)"
  using assms by (simp add: apply_item_def deleted_def)

theorem deleted_absent_noop_witness:
  "has_key ''deleted'' docs_deleted \<and> get_path docs_deleted = Inr ''/docs''
   \<and> [''/'' \<mapsto> JObj root_item] ''/docs'' = None
   \<and> deleted docs_deleted [''/'' \<mapsto> JObj root_item] = (None, [''/'' \<mapsto> JObj root_item])
   \<and> apply_item docs_deleted [''/'' \<mapsto> JObj root_item] = (None, [''/'' \<mapsto> JObj root_item])"
proof -
  have d: "has_key ''deleted'' docs_deleted"
    by (simp add: has_key_def docs_deleted_def)
  have p: "get_path docs_deleted = Inr ''/docs''"
    by (simp add: get_path_def has_key_def docs_deleted_def partition_str_def)
  have a: "[''/'' \<mapsto> JObj root_item] ''/docs'' = None"
    by simp
  from deleted_absent_noop [of docs_deleted "''/docs''" "[''/'' \<mapsto> JObj root_item]"] d p a
  show ?thesis by simp
qed

text \<open>
  C7. Applying a non-deleted item is idempotent: once the loop body has applied the item,
  applying it again succeeds and returns the very same cache, so \<^verbatim>\<open>item[path]\<close> is
  unchanged and the name is not appended to \<^verbatim>\<open>children[parent]\<close> a second time.
\<close>

theorem apply_item_idempotent:
  assumes "\<not> has_key ''deleted'' item" and "apply_item item c = (None, c')"
  shows "apply_item item c' = (None, c')"
  using assms
  by (auto simp: apply_item_def split: sum.splits if_splits prod.splits option.splits)

theorem apply_item_idempotent_witness:
  "\<not> has_key ''deleted'' docs_item
   \<and> apply_item docs_item [''/'' \<mapsto> JObj root_item]
       = (None, [''/'' \<mapsto> JObj root_item, ''c/'' \<mapsto> JArr [JStr ''docs''], ''/docs'' \<mapsto> JObj docs_item])
   \<and> apply_item docs_item
         [''/'' \<mapsto> JObj root_item, ''c/'' \<mapsto> JArr [JStr ''docs''], ''/docs'' \<mapsto> JObj docs_item]
       = (None, [''/'' \<mapsto> JObj root_item, ''c/'' \<mapsto> JArr [JStr ''docs''], ''/docs'' \<mapsto> JObj docs_item])"
proof -
  have n: "\<not> has_key ''deleted'' docs_item"
    by (simp add: has_key_def docs_item_def)
  have a: "apply_item docs_item [''/'' \<mapsto> JObj root_item]
       = (None, [''/'' \<mapsto> JObj root_item, ''c/'' \<mapsto> JArr [JStr ''docs''], ''/docs'' \<mapsto> JObj docs_item])"
    by (simp add: index_eval docs_item_def)
  from apply_item_idempotent [OF n a] n a show ?thesis by simp
qed

text \<open>
  The parent that \<^verbatim>\<open>_deleted\<close> computes for a top-level path is the empty string, so
  for every top-level item that the index holds (and that carries no folder facet) the
  call pops the item and then fails its assertion, unless the index has a truthy entry
  under the empty key, which no path is.
\<close>

lemma rpartition_top_level:
  assumes "CHR ''/'' \<notin> set n"
  shows "fst (rpartition CHR ''/'' (''/'' @ n)) = []"
proof -
  have "dropWhile (\<lambda>x. x \<noteq> CHR ''/'') (rev n @ ''/'')
      = dropWhile (\<lambda>x. x \<noteq> CHR ''/'') ''/''"
    using assms by (intro dropWhile_append2) auto
  then show ?thesis by (simp add: rpartition_def)
qed

lemma deleted_top_level_asserts:
  assumes "get_path item = Inr (''/'' @ n)" and "CHR ''/'' \<notin> set n"
    and "c (''/'' @ n) = Some v" and "c [] = None" and "\<not> has_key ''folder'' item"
  shows "deleted item c = (Some AssertionError, c(''/'' @ n := None))"
  using assms rpartition_top_level [of n]
  by (simp add: deleted_def cache_pop_def cache_get_def)

text \<open>
  C1. Scenario B on the code: the first page leaves \<^verbatim>\<open>docs\<close> in the index; the page
  that then marks \<^verbatim>\<open>docs\<close> deleted removes \<^verbatim>\<open>item['/docs']\<close> and stops with an
  \<^verbatim>\<open>AssertionError\<close>, because \<^verbatim>\<open>_deleted\<close> looks for the parent under \<^verbatim>\<open>''\<close>
  (\<^verbatim>\<open>rpartition('/')[0]\<close>, without the \<^verbatim>\<open>or '/'\<close> of \<^verbatim>\<open>_added\<close>);
  \<^verbatim>\<open>children['/']\<close> still lists \<^verbatim>\<open>docs\<close>. When the deleted item carries its folder
  facet the call stops earlier, with the \<^verbatim>\<open>KeyError\<close> of popping a children entry
  that a folder without children never had.
\<close>

theorem deleted_top_level_keeps_child:
  "process_page first_page (JStr ''start'', Map.empty) = (None, JNull, index_with_docs)
   \<and> fst (process_page (deletion_page docs_deleted) (JNull, index_with_docs)) = Some AssertionError
   \<and> snd (snd (process_page (deletion_page docs_deleted) (JNull, index_with_docs))) ''/docs'' = None
   \<and> snd (snd (process_page (deletion_page docs_deleted) (JNull, index_with_docs))) ''c/''
        = Some (JArr [JStr ''docs''])
   \<and> fst (process_page (deletion_page docs_folder_deleted) (JNull, index_with_docs)) = Some KeyError
   \<and> snd (snd (process_page (deletion_page docs_folder_deleted) (JNull, index_with_docs))) ''c/''
        = Some (JArr [JStr ''docs''])"
proof -
  have one: "process_page (deletion_page docs_deleted) (JNull, index_with_docs)
      = (Some AssertionError, JNull,
         [''delta'' \<mapsto> JStr ''cursor-2'', ''/'' \<mapsto> JObj root_item,
          ''c/'' \<mapsto> JArr [JStr ''docs'']])"
    by (simp add: index_eval deletion_page_def docs_deleted_def index_with_docs_def)
       (rule ext, simp)
  have two: "process_page (deletion_page docs_folder_deleted) (JNull, index_with_docs)
      = (Some KeyError, JNull,
         [''delta'' \<mapsto> JStr ''cursor-2'', ''/'' \<mapsto> JObj root_item,
          ''c/'' \<mapsto> JArr [JStr ''docs'']])"
    by (simp add: index_eval deletion_page_def docs_folder_deleted_def docs_deleted_def
        index_with_docs_def)
       (rule ext, simp)
  show ?thesis
    by (simp only: first_page_run one two) simp
qed

text \<open>
  C2, as stated, fails: a terminal page whose only changed item cannot be applied (a
  deletion that arrives without a name or a parent path makes \<^verbatim>\<open>_get_path\<close> raise)
  leaves the new cursor stored although the item was never applied; \<^verbatim>\<open>docs\<close> is still
  in the index.
\<close>

theorem cursor_before_items_counterexample:
  "fst (poll_step (Page (deletion_page bare_deleted)) (JNull, index_with_docs)) = Some KeyError
   \<and> snd (snd (poll_step (Page (deletion_page bare_deleted)) (JNull, index_with_docs))) ''delta''
        = Some (JStr ''cursor-2'')
   \<and> snd (snd (poll_step (Page (deletion_page bare_deleted)) (JNull, index_with_docs))) ''/docs''
        = Some (JObj docs_item)"
  by (simp add: index_eval deletion_page_def bare_deleted_def index_with_docs_def)

text \<open>
  C2, amended. In a pass of the loop that receives a terminal page, the cursor is stored
  before the items are applied: the outcome of the pass is that of applying the items to
  a cache that already holds the new cursor, and whatever happens to the items, an
  exception included, the cache holds the new cursor when the pass ends.
\<close>

theorem cursor_persisted_before_items:
  assumes "delta_link r = Some d" and "pvalue r = Some items"
  shows "snd (snd (poll_step (Page r) (nl, c))) ''delta'' = Some d
     \<and> (fst (poll_step (Page r) (nl, c)), snd (snd (poll_step (Page r) (nl, c))))
         = apply_items items (c(''delta'' \<mapsto> d))"
proof -
  obtain e c2 where run: "apply_items items (c(''delta'' \<mapsto> d)) = (e, c2)"
    by (cases "apply_items items (c(''delta'' \<mapsto> d))")
  from apply_items_keeps_delta [OF run] have "c2 ''delta'' = Some d"
    by simp
  with assms run show ?thesis
    by (simp add: process_page_def persist_cursor_def)
qed

theorem cursor_persisted_before_items_witness:
  "delta_link first_page = Some (JStr ''cursor-1'')
   \<and> pvalue first_page = Some [root_item, docs_item]
   \<and> snd (snd (poll_step (Page first_page) (JStr ''start'', Map.empty))) ''delta''
        = Some (JStr ''cursor-1'')
   \<and> (fst (poll_step (Page first_page) (JStr ''start'', Map.empty)),
       snd (snd (poll_step (Page first_page) (JStr ''start'', Map.empty))))
        = apply_items [root_item, docs_item] [''delta'' \<mapsto> JStr ''cursor-1'']"
proof -
  have d: "delta_link first_page = Some (JStr ''cursor-1'')"
    by (simp add: first_page_def)
  have v: "pvalue first_page = Some [root_item, docs_item]"
    by (simp add: first_page_def)
  from cursor_persisted_before_items [OF d v, of "JStr ''start''" Map.empty] d v
  show ?thesis by simp
qed

section \<open>Properties of reading content\<close>

lemma range_header_10_5: "range_header (Some 10) (Some 5) = ''bytes=10-14''"
  by (simp add: range_header_def str_int_def str_nat.simps)

text \<open>
  C8. For a path whose index entry is an item without a folder facet:
  a size of zero or less returns empty bytes and sends no request;
  with offset 10 and size 5 the request carries the header \<^verbatim>\<open>range: bytes=10-14\<close>, and
  on a 200 or 206 answer that one request is all that is sent and the answer's body is
  returned; whatever the offset and the size, a 304 answer to the request makes the call
  return empty bytes.
\<close>

theorem get_contents_scenarios:
  assumes "c path = Some (JObj item)" and "\<not> has_key ''folder'' item"
  shows "(sz \<le> 0 \<longrightarrow> get_contents session d path offset (Some sz) c = (Inr (Some []), []))
    \<and> map_of (headers (content_request d path (Some 10) (Some 5) c)) ''range''
         = Some (JStr ''bytes=10-14'')
    \<and> (status_code (session (content_request d path (Some 10) (Some 5) c)) \<in> {200, 206} \<longrightarrow>
         get_contents session d path (Some 10) (Some 5) c
           = (Inr (Some (content (session (content_request d path (Some 10) (Some 5) c)))),
              [content_request d path (Some 10) (Some 5) c]))
    \<and> (status_code (session (content_request d path offset size' c)) = 304 \<longrightarrow>
         fst (get_contents session d path offset size' c) = Inr (Some []))"
proof -
  have empty: "sz \<le> 0 \<longrightarrow> get_contents session d path offset (Some sz) c = (Inr (Some []), [])"
    using assms by (simp add: get_contents_def)
  have ranged: "map_of (headers (content_request d path (Some 10) (Some 5) c)) ''range''
      = Some (JStr ''bytes=10-14'')"
    by (simp add: content_request_def range_header_10_5 Let_def)
  have body: "status_code (session (content_request d path (Some 10) (Some 5) c)) \<in> {200, 206} \<longrightarrow>
      get_contents session d path (Some 10) (Some 5) c
        = (Inr (Some (content (session (content_request d path (Some 10) (Some 5) c)))),
           [content_request d path (Some 10) (Some 5) c])"
    using assms by (auto simp: get_contents_def next_request_def Let_def)
  have unmodified: "status_code (session (content_request d path offset size' c)) = 304 \<longrightarrow>
      fst (get_contents session d path offset size' c) = Inr (Some [])"
    using assms by (simp add: get_contents_def Let_def)
  from empty ranged body unmodified show ?thesis by blast
qed

theorem get_contents_scenarios_witness:
  "index_with_report ''/docs/report.txt'' = Some (JObj report_item)
   \<and> \<not> has_key ''folder'' report_item
   \<and> get_contents partial_session ''d1'' ''/docs/report.txt'' (Some 10) (Some 0) index_with_report
        = (Inr (Some []), [])
   \<and> map_of (headers (content_request ''d1'' ''/docs/report.txt'' (Some 10) (Some 5) index_with_report))
        ''range'' = Some (JStr ''bytes=10-14'')
   \<and> get_contents partial_session ''d1'' ''/docs/report.txt'' (Some 10) (Some 5) index_with_report
        = (Inr (Some ''hello''),
           [content_request ''d1'' ''/docs/report.txt'' (Some 10) (Some 5) index_with_report])
   \<and> fst (get_contents unmodified_session ''d1'' ''/docs/report.txt'' (Some 10) (Some 5)
          index_with_report) = Inr (Some [])"
proof -
  have held: "index_with_report ''/docs/report.txt'' = Some (JObj report_item)"
    by (simp add: index_with_report_def)
  have plain: "\<not> has_key ''folder'' report_item"
    by (simp add: has_key_def report_item_def)
  note ranged = get_contents_scenarios
    [where c = index_with_report and path = "''/docs/report.txt''" and item = report_item
       and sz = 0 and session = partial_session and d = "''d1''" and offset = "Some 10"]
  note fresh = get_contents_scenarios
    [where c = index_with_report and path = "''/docs/report.txt''" and item = report_item
       and sz = 0 and session = unmodified_session and d = "''d1''" and offset = "Some 10"
       and size' = "Some 5"]
  from ranged fresh held plain show ?thesis
    by (simp add: partial_session_def unmodified_session_def)
qed

section \<open>Properties of the authenticator\<close>

lemma getitem_error: "getitem d k = Inl e \<Longrightarrow> e = KeyError"
  by (simp add: getitem_def split: option.splits)

lemma timedelta_seconds_error:
  "timedelta_seconds x = Inl e \<Longrightarrow> e = TypeError \<or> e = OverflowError"
  by (cases x) (auto split: if_splits)

lemma datetime_add_error: "datetime_add t delta = Inl e \<Longrightarrow> e = OverflowError"
  by (auto simp: datetime_add_def split: if_splits)

text \<open>With a refresh token held, a renewal sends exactly one request and never reports a missing token.\<close>

lemma refresh_sent:
  "refresh_token st \<noteq> JNull \<Longrightarrow> snd (snd (refresh post now st)) = [refresh_request st]"
  by (simp add: refresh_def Let_def split: sum.splits)

lemma refresh_not_NoTokenError:
  assumes "refresh_token st \<noteq> JNull"
  shows "fst (refresh post now st) \<noteq> Inl NoTokenError"
proof
  assume failed: "fst (refresh post now st) = Inl NoTokenError"
  let ?r = "post (refresh_request st)"
  show False
  proof (cases "has_key ''error'' ?r")
    case True
    with assms failed show False by (simp add: refresh_def Let_def)
  next
    case False
    show False
    proof (cases "getitem ?r ''expires_in''")
      case (Inl e)
      with assms False failed getitem_error [OF Inl] show False
        by (simp add: refresh_def Let_def)
    next
      case x: (Inr x)
      show False
      proof (cases "timedelta_seconds x")
        case (Inl e)
        with assms False x failed timedelta_seconds_error [OF Inl] show False
          by (auto simp: refresh_def Let_def)
      next
        case dl: (Inr delta)
        show False
        proof (cases "datetime_add now delta")
          case (Inl e)
          with assms False x dl failed datetime_add_error [OF Inl] show False
            by (simp add: refresh_def Let_def)
        next
          case ex: (Inr expiry)
          show False
          proof (cases "getitem ?r ''refresh_token''")
            case (Inl e)
            with assms False x dl ex failed getitem_error [OF Inl] show False
              by (simp add: refresh_def Let_def)
          next
            case rt: (Inr rt)
            show False
            proof (cases "getitem ?r ''access_token''")
              case (Inl e)
              with assms False x dl ex rt failed getitem_error [OF Inl] show False
                by (simp add: refresh_def Let_def)
            next
              case (Inr tok)
              with assms False x dl ex rt failed show False
                by (simp add: refresh_def Let_def)
            qed
          qed
        qed
      qed
    qed
  qed
qed

lemma refresh_error_payload:
  "refresh_token st \<noteq> JNull \<Longrightarrow> has_key ''error'' (post (refresh_request st)) \<Longrightarrow>
   refresh post now st = (Inl (APIError (post (refresh_request st))), st, [refresh_request st])"
  by (simp add: refresh_def Let_def)

lemma refresh_grant:
  assumes "refresh_token st \<noteq> JNull"
    and "\<not> has_key ''error'' (post (refresh_request st))"
    and "map_of (post (refresh_request st)) ''expires_in'' = Some (JNum n)"
    and "- 999999999 \<le> n div 86400" and "n div 86400 \<le> 999999999"
    and "0 \<le> now + n * 1000000" and "now + n * 1000000 \<le> datetime_max"
    and "map_of (post (refresh_request st)) ''refresh_token'' = Some rt"
    and "map_of (post (refresh_request st)) ''access_token'' = Some tok"
  shows "refresh post now st
     = (Inr tok,
        st\<lparr>expires := now + n * 1000000, refresh_token := rt, stored_access_token := tok\<rparr>,
        [refresh_request st])"
  using assms by (simp add: refresh_def Let_def getitem_def datetime_add_def)

text \<open>
  A lifetime that a \<^verbatim>\<open>timedelta\<close> cannot hold, or an expiry outside the years 1 to
  9999, makes the renewal raise \<^verbatim>\<open>OverflowError\<close> before anything is assigned.
\<close>

lemma refresh_overflow:
  assumes "refresh_token st \<noteq> JNull"
    and "\<not> has_key ''error'' (post (refresh_request st))"
    and "map_of (post (refresh_request st)) ''expires_in'' = Some (JNum n)"
    and "n div 86400 < - 999999999 \<or> 999999999 < n div 86400
         \<or> now + n * 1000000 < 0 \<or> datetime_max < now + n * 1000000"
  shows "refresh post now st = (Inl OverflowError, st, [refresh_request st])"
  using assms by (auto simp: refresh_def Let_def getitem_def datetime_add_def)

text \<open>
  When the answer has no \<^verbatim>\<open>refresh_token\<close>, the renewal raises \<^verbatim>\<open>KeyError\<close>
  after the expiry has been assigned.
\<close>

lemma refresh_without_refresh_token:
  assumes "refresh_token st \<noteq> JNull"
    and "\<not> has_key ''error'' (post (refresh_request st))"
    and "map_of (post (refresh_request st)) ''expires_in'' = Some (JNum n)"
    and "- 999999999 \<le> n div 86400" and "n div 86400 \<le> 999999999"
    and "0 \<le> now + n * 1000000" and "now + n * 1000000 \<le> datetime_max"
    and "map_of (post (refresh_request st)) ''refresh_token'' = None"
  shows "refresh post now st
     = (Inl KeyError, st\<lparr>expires := now + n * 1000000\<rparr>, [refresh_request st])"
  using assms by (simp add: refresh_def Let_def getitem_def datetime_add_def)

text \<open>
  C9. With a refresh token held, an answer of the token endpoint that carries an error
  payload makes \<^verbatim>\<open>refresh\<close> raise \<^verbatim>\<open>APIError\<close> with that payload, after the one
  request, and the credential (access token, expiry and refresh token with it) is exactly
  what it was.
\<close>

theorem refresh_error_keeps_state:
  assumes "refresh_token st \<noteq> JNull" and "has_key ''error'' (post (refresh_request st))"
  shows "refresh post now st = (Inl (APIError (post (refresh_request st))), st, [refresh_request st])"
  using assms by (simp add: refresh_def Let_def)

theorem refresh_error_keeps_state_witness:
  "refresh_token full_cred \<noteq> JNull \<and> has_key ''error'' invalid_grant
   \<and> refresh (\<lambda>req. invalid_grant) 500 full_cred
       = (Inl (APIError invalid_grant), full_cred, [refresh_request full_cred])"
  using refresh_error_keeps_state [of full_cred "\<lambda>req. invalid_grant" 500]
  by (simp add: full_cred_def invalid_grant_def has_key_def)

text \<open>
  C3, as stated, fails: with an access token held but past its expiry and no refresh
  token, \<^verbatim>\<open>token()\<close> fails with \<^verbatim>\<open>NoTokenError\<close> although an access token is held;
  and at the very instant of expiry a held token is returned with no renewal.
\<close>

theorem access_token_expired_counterexample:
  "stored_access_token expired_cred \<noteq> JNull
   \<and> fst (access_token (\<lambda>req. grant) 200 200 expired_cred) = Inl NoTokenError
   \<and> expires full_cred = 100
   \<and> access_token (\<lambda>req. grant) 100 100 full_cred = (Inr (JStr ''old''), full_cred, [])"
  by (simp add: access_token_def refresh_def expired_cred_def full_cred_def)

lemma refresh_returns_stored:
  "refresh post now st = (Inr v, st', sent) \<Longrightarrow> stored_access_token st' = v"
  by (auto simp: refresh_def Let_def split: if_splits sum.splits)

text \<open>
  C3, amended. \<^verbatim>\<open>token()\<close> fails with \<^verbatim>\<open>NoTokenError\<close> exactly when no refresh token
  is held and the access token is absent or the clock is past its expiry. A renewal
  request is sent exactly when a refresh token is held and the access token is absent or
  the clock is past its expiry. A held access token is returned as it is, with no
  request, while the clock is not past the expiry (the instant of expiry included).
  When a renewal is due and a refresh token is held, the read ends as the renewal ends:
  an error payload makes it fail with \<^verbatim>\<open>APIError\<close> and leaves the credential alone;
  an answer without an error key that carries an integer \<^verbatim>\<open>expires_in\<close>, a
  \<^verbatim>\<open>refresh_token\<close> and an \<^verbatim>\<open>access_token\<close>, with a lifetime that a
  \<^verbatim>\<open>timedelta\<close> can hold and a new expiry that a \<^verbatim>\<open>datetime\<close> can hold, makes it
  return the new access token with the credential replaced; an integer lifetime or a
  new expiry that they cannot hold makes it fail with \<^verbatim>\<open>OverflowError\<close> and leaves
  the credential alone.
\<close>

theorem access_token_outcome:
  "(fst (access_token post now now' st) = Inl NoTokenError
      \<longleftrightarrow> refresh_token st = JNull \<and> (stored_access_token st = JNull \<or> expires st < now))
   \<and> (snd (snd (access_token post now now' st)) = [refresh_request st]
      \<longleftrightarrow> refresh_token st \<noteq> JNull \<and> (stored_access_token st = JNull \<or> expires st < now))
   \<and> (snd (snd (access_token post now now' st)) = []
      \<longleftrightarrow> \<not> (refresh_token st \<noteq> JNull \<and> (stored_access_token st = JNull \<or> expires st < now)))
   \<and> (stored_access_token st \<noteq> JNull \<and> now \<le> expires st \<longrightarrow>
        access_token post now now' st = (Inr (stored_access_token st), st, []))
   \<and> (refresh_token st \<noteq> JNull \<and> (stored_access_token st = JNull \<or> expires st < now) \<longrightarrow>
        access_token post now now' st = refresh post now' st)
   \<and> (refresh_token st \<noteq> JNull \<and> (stored_access_token st = JNull \<or> expires st < now)
        \<and> has_key ''error'' (post (refresh_request st)) \<longrightarrow>
        access_token post now now' st
          = (Inl (APIError (post (refresh_request st))), st, [refresh_request st]))
   \<and> (refresh_token st \<noteq> JNull \<and> (stored_access_token st = JNull \<or> expires st < now)
        \<and> \<not> has_key ''error'' (post (refresh_request st))
        \<and> map_of (post (refresh_request st)) ''expires_in'' = Some (JNum n)
        \<and> - 999999999 \<le> n div 86400 \<and> n div 86400 \<le> 999999999
        \<and> 0 \<le> now' + n * 1000000 \<and> now' + n * 1000000 \<le> datetime_max
        \<and> map_of (post (refresh_request st)) ''refresh_token'' = Some rt
        \<and> map_of (post (refresh_request st)) ''access_token'' = Some tok \<longrightarrow>
        access_token post now now' st
          = (Inr tok,
             st\<lparr>expires := now' + n * 1000000, refresh_token := rt, stored_access_token := tok\<rparr>,
             [refresh_request st]))
   \<and> (refresh_token st \<noteq> JNull \<and> (stored_access_token st = JNull \<or> expires st < now)
        \<and> \<not> has_key ''error'' (post (refresh_request st))
        \<and> map_of (post (refresh_request st)) ''expires_in'' = Some (JNum n)
        \<and> (n div 86400 < - 999999999 \<or> 999999999 < n div 86400
             \<or> now' + n * 1000000 < 0 \<or> datetime_max < now' + n * 1000000) \<longrightarrow>
        access_token post now now' st = (Inl OverflowError, st, [refresh_request st]))"
proof -
  let ?due = "stored_access_token st = JNull \<or> expires st < now"
  have run: "access_token post now now' st =
      (if stored_access_token st = JNull \<and> refresh_token st = JNull then (Inl NoTokenError, st, [])
       else if ?due
       then (case refresh post now' st of
               (Inl e, st', sent) \<Rightarrow> (Inl e, st', sent)
             | (Inr v, st', sent) \<Rightarrow> (Inr (stored_access_token st'), st', sent))
       else (Inr (stored_access_token st), st, []))"
    by (auto simp: access_token_def)
  have none: "refresh_token st = JNull \<Longrightarrow> refresh post now' st = (Inl NoTokenError, st, [])"
    by (simp add: refresh_def)
  have same: "refresh_token st \<noteq> JNull \<and> ?due \<longrightarrow>
      access_token post now now' st = refresh post now' st"
  proof
    assume held: "refresh_token st \<noteq> JNull \<and> ?due"
    obtain res st' sent where r: "refresh post now' st = (res, st', sent)"
      by (cases "refresh post now' st")
    show "access_token post now now' st = refresh post now' st"
    proof (cases res)
      case (Inl e)
      with held r show ?thesis by (auto simp: run)
    next
      case (Inr v)
      with r have "stored_access_token st' = v"
        by (simp add: refresh_returns_stored)
      with held r Inr show ?thesis by (auto simp: run)
    qed
  qed
  have first: "fst (access_token post now now' st) = Inl NoTokenError
      \<longleftrightarrow> refresh_token st = JNull \<and> ?due"
  proof (cases "refresh_token st = JNull")
    case True
    then show ?thesis by (simp add: run none)
  next
    case False
    from refresh_not_NoTokenError [OF False, of post now'] False show ?thesis
      by (auto simp: run split: prod.splits sum.splits)
  qed
  have sent: "snd (snd (access_token post now now' st))
      = (if refresh_token st \<noteq> JNull \<and> ?due then [refresh_request st] else [])"
  proof (cases "refresh_token st = JNull")
    case True
    then show ?thesis by (simp add: run none)
  next
    case False
    from refresh_sent [OF False, of post now'] False show ?thesis
      by (auto simp: run split: prod.splits sum.splits)
  qed
  have second: "snd (snd (access_token post now now' st)) = [refresh_request st]
      \<longleftrightarrow> refresh_token st \<noteq> JNull \<and> ?due"
    by (simp add: sent)
  have third: "snd (snd (access_token post now now' st)) = []
      \<longleftrightarrow> \<not> (refresh_token st \<noteq> JNull \<and> ?due)"
    by (simp add: sent)
  have cached: "stored_access_token st \<noteq> JNull \<and> now \<le> expires st \<longrightarrow>
      access_token post now now' st = (Inr (stored_access_token st), st, [])"
    by (simp add: run)
  have rejected: "refresh_token st \<noteq> JNull \<and> ?due
      \<and> has_key ''error'' (post (refresh_request st)) \<longrightarrow>
      access_token post now now' st
        = (Inl (APIError (post (refresh_request st))), st, [refresh_request st])"
    using same by (simp add: refresh_error_payload)
  have granted: "refresh_token st \<noteq> JNull \<and> ?due
      \<and> \<not> has_key ''error'' (post (refresh_request st))
      \<and> map_of (post (refresh_request st)) ''expires_in'' = Some (JNum n)
      \<and> - 999999999 \<le> n div 86400 \<and> n div 86400 \<le> 999999999
      \<and> 0 \<le> now' + n * 1000000 \<and> now' + n * 1000000 \<le> datetime_max
      \<and> map_of (post (refresh_request st)) ''refresh_token'' = Some rt
      \<and> map_of (post (refresh_request st)) ''access_token'' = Some tok \<longrightarrow>
      access_token post now now' st
        = (Inr tok,
           st\<lparr>expires := now' + n * 1000000, refresh_token := rt, stored_access_token := tok\<rparr>,
           [refresh_request st])"
    using same by (simp add: refresh_grant)
  have overflow: "refresh_token st \<noteq> JNull \<and> ?due
      \<and> \<not> has_key ''error'' (post (refresh_request st))
      \<and> map_of (post (refresh_request st)) ''expires_in'' = Some (JNum n)
      \<and> (n div 86400 < - 999999999 \<or> 999999999 < n div 86400
           \<or> now' + n * 1000000 < 0 \<or> datetime_max < now' + n * 1000000) \<longrightarrow>
      access_token post now now' st = (Inl OverflowError, st, [refresh_request st])"
    using same by (simp add: refresh_overflow)
  from first second third cached same rejected granted overflow show ?thesis
    by (intro conjI)
qed

theorem access_token_outcome_witness:
  "fst (access_token (\<lambda>req. grant) 200 200 expired_cred) = Inl NoTokenError
   \<and> snd (snd (access_token (\<lambda>req. grant) 200 200 expired_cred)) = []
   \<and> access_token (\<lambda>req. grant) 50 50 full_cred = (Inr (JStr ''old''), full_cred, [])
   \<and> access_token (\<lambda>req. grant) 200 300 full_cred = refresh (\<lambda>req. grant) 300 full_cred
   \<and> access_token (\<lambda>req. invalid_grant) 200 200 full_cred
        = (Inl (APIError invalid_grant), full_cred, [refresh_request full_cred])
   \<and> access_token (\<lambda>req. grant) 200 300 full_cred
        = (Inr (JStr ''new''),
           full_cred\<lparr>expires := 300 + 3600 * 1000000, refresh_token := JStr ''r2'',
                     stored_access_token := JStr ''new''\<rparr>,
           [refresh_request full_cred])
   \<and> access_token (\<lambda>req. endless_grant) 200 300 full_cred
        = (Inl OverflowError, full_cred, [refresh_request full_cred])"
proof -
  note lost = access_token_outcome
    [where post = "\<lambda>req. grant" and now = 200 and now' = 200 and st = expired_cred]
  note cached = access_token_outcome
    [where post = "\<lambda>req. grant" and now = 50 and now' = 50 and st = full_cred]
  note rejected = access_token_outcome
    [where post = "\<lambda>req. invalid_grant" and now = 200 and now' = 200 and st = full_cred]
  note renewed = access_token_outcome
    [where post = "\<lambda>req. grant" and now = 200 and now' = 300 and st = full_cred
       and n = 3600 and rt = "JStr ''r2''" and tok = "JStr ''new''"]
  note endless = access_token_outcome
    [where post = "\<lambda>req. endless_grant" and now = 200 and now' = 300 and st = full_cred
       and n = 100000000000000]
  have a: "fst (access_token (\<lambda>req. grant) 200 200 expired_cred) = Inl NoTokenError"
    using lost by (simp add: expired_cred_def)
  have b: "snd (snd (access_token (\<lambda>req. grant) 200 200 expired_cred)) = []"
    using lost by (simp add: expired_cred_def)
  have c: "access_token (\<lambda>req. grant) 50 50 full_cred = (Inr (JStr ''old''), full_cred, [])"
    using cached by (simp add: full_cred_def)
  have d: "access_token (\<lambda>req. grant) 200 300 full_cred = refresh (\<lambda>req. grant) 300 full_cred"
    using renewed by (auto simp: full_cred_def)
  have e: "access_token (\<lambda>req. invalid_grant) 200 200 full_cred
        = (Inl (APIError invalid_grant), full_cred, [refresh_request full_cred])"
    using rejected by (auto simp: full_cred_def invalid_grant_def has_key_def)
  have f: "access_token (\<lambda>req. grant) 200 300 full_cred
        = (Inr (JStr ''new''),
           full_cred\<lparr>expires := 300 + 3600 * 1000000, refresh_token := JStr ''r2'',
                     stored_access_token := JStr ''new''\<rparr>,
           [refresh_request full_cred])"
    using renewed by (auto simp: full_cred_def grant_def has_key_def datetime_max_def)
  have g: "access_token (\<lambda>req. endless_grant) 200 300 full_cred
        = (Inl OverflowError, full_cred, [refresh_request full_cred])"
    using endless by (auto simp: full_cred_def endless_grant_def has_key_def)
  from a b c d e f g show ?thesis by (intro conjI)
qed

text \<open>The polling loop has no path to \<^verbatim>\<open>AuthorizationCanceledError\<close>: the test that guards it repeats the test for a pending authorization, which has already sent the loop round again.\<close>

lemma sleep_not_canceled: "sleep interval \<noteq> Some AuthorizationCanceledError"
  by (cases interval) (auto split: if_splits)

lemma poll_token_never_canceled:
  "poll_token deadline interval polls \<noteq> Some (Inl AuthorizationCanceledError)"
  by (induction deadline interval polls rule: poll_token.induct)
     (auto simp: sleep_not_canceled split: option.splits)

text \<open>
  C4. On the code, a device-code flow whose first poll is answered with the error of a
  user who refused consent (\<^verbatim>\<open>authorization_declined\<close>) before the deadline ends in
  \<^verbatim>\<open>APIError\<close> carrying that answer, not in \<^verbatim>\<open>AuthorizationCanceledError\<close>; the
  credential is untouched.
\<close>

theorem authenticate_declined_is_APIError:
  "authenticate device_code_answer 0 False [(1000000, declined)] 2000000 full_cred
     = Some (Inl (APIError declined), full_cred)"
  by (simp add: authenticate_def announce_def device_code_answer_def declined_def
      has_key_def getitem_def datetime_add_def datetime_max_def)

section \<open>Properties of the persistent cache\<close>

text \<open>A lookup finds a row exactly when the table has one with that key.\<close>

lemma select_value_None: "select_value k tbl = None \<longleftrightarrow> k \<notin> fst ` set tbl"
  by (induction tbl) (auto simp: select_value_def)

lemma select_value_update: "k \<in> fst ` set tbl \<Longrightarrow> select_value k (update_row k v tbl) = Some v"
  by (induction tbl) (auto simp: select_value_def update_row_def)

lemma select_value_insert: "k \<notin> fst ` set tbl \<Longrightarrow> select_value k (tbl @ [(k, v)]) = Some v"
  by (induction tbl) (auto simp: select_value_def)

lemma select_value_delete: "select_value k (delete_row k tbl) = None"
  by (induction tbl) (auto simp: select_value_def delete_row_def)

lemma DBDict_contains_iff: "DBDict_contains cd k tbl \<longleftrightarrow> dumps cd k \<in> fst ` set tbl"
  using select_value_None [of "dumps cd k" tbl]
  by (auto simp: DBDict_contains_def DBDict_getitem_def split: option.splits)

lemma DBDict_setitem_succeeds: "fst (DBDict_setitem cd k v tbl) = None"
  by (simp add: DBDict_setitem_def Let_def DBDict_contains_iff insert_row_def)

lemma DBDict_getitem_setitem:
  "DBDict_getitem cd k (snd (DBDict_setitem cd k v tbl)) = Inr (value_loads cd (dumps cd v))"
  by (simp add: DBDict_setitem_def Let_def DBDict_contains_iff insert_row_def DBDict_getitem_def
      select_value_update select_value_insert)

lemma DBDict_getitem_absent:
  "dumps cd k \<notin> fst ` set tbl \<Longrightarrow> DBDict_getitem cd k tbl = Inl KeyError"
  by (simp add: DBDict_getitem_def select_value_None [THEN iffD2])

lemma DBDict_getitem_delitem:
  "DBDict_getitem cd k (snd (DBDict_delitem cd k tbl)) = Inl KeyError"
proof (cases "DBDict_contains cd k tbl")
  case True
  then show ?thesis
    by (simp add: DBDict_delitem_def DBDict_getitem_def select_value_delete)
next
  case False
  then have "dumps cd k \<notin> fst ` set tbl"
    by (simp add: DBDict_contains_iff)
  with False show ?thesis
    by (simp add: DBDict_delitem_def DBDict_getitem_absent)
qed

lemma DBDict_setitem_again_length:
  "length (snd (DBDict_setitem cd k v' (snd (DBDict_setitem cd k v tbl))))
     = length (snd (DBDict_setitem cd k v tbl))"
proof -
  have "DBDict_contains cd k (snd (DBDict_setitem cd k v tbl))"
    by (simp add: DBDict_contains_def DBDict_getitem_setitem)
  then show ?thesis
    by (simp add: DBDict_setitem_def [of cd k v'] Let_def update_row_def)
qed

text \<open>With the \<^verbatim>\<open>sqlite3\<close> driver the length is 0 whatever the table holds.\<close>

lemma DBDict_len_sqlite3: "DBDict_len sqlite3_rowcount tbl = 0"
  by (simp add: DBDict_len_def sqlite3_rowcount_def)

text \<open>A driver whose cursors count the rows selected would make it the number of rows.\<close>

lemma DBDict_len_counting: "DBDict_len (\<lambda>selected. int (length selected)) tbl = int (length tbl)"
  by (simp add: DBDict_len_def select_keys_def)

text \<open>
  C6. For a value that the codec gives back (\<^verbatim>\<open>value_loads(dumps(v)) == v\<close>), setting a
  key succeeds and a following read returns the value, on any table; a second set of the
  same key replaces the value and adds no row. After \<^verbatim>\<open>del d[k]\<close>, whether it
  succeeded or raised, reading the key raises \<^verbatim>\<open>KeyError\<close>; so does reading a key
  that no row stores.
\<close>

theorem DBDict_set_get_delete:
  "(value_loads cd (dumps cd v) = v \<longrightarrow>
      fst (DBDict_setitem cd k v tbl) = None \<and>
      DBDict_getitem cd k (snd (DBDict_setitem cd k v tbl)) = Inr v)
   \<and> (value_loads cd (dumps cd v') = v' \<longrightarrow>
      DBDict_getitem cd k (snd (DBDict_setitem cd k v' (snd (DBDict_setitem cd k v tbl)))) = Inr v' \<and>
      length (snd (DBDict_setitem cd k v' (snd (DBDict_setitem cd k v tbl))))
        = length (snd (DBDict_setitem cd k v tbl)))
   \<and> DBDict_getitem cd k (snd (DBDict_delitem cd k tbl)) = Inl KeyError
   \<and> (dumps cd k \<notin> fst ` set tbl \<longrightarrow> DBDict_getitem cd k tbl = Inl KeyError)"
  by (simp add: DBDict_setitem_succeeds DBDict_getitem_setitem DBDict_getitem_delitem
      DBDict_getitem_absent DBDict_setitem_again_length)

theorem DBDict_set_get_delete_witness:
  "value_loads raw_codec (dumps raw_codec ''v1'') = ''v1''
   \<and> value_loads raw_codec (dumps raw_codec ''v2'') = ''v2''
   \<and> dumps raw_codec ''k'' \<notin> fst ` set [(''j'', ''w'')]
   \<and> DBDict_getitem raw_codec ''k'' (snd (DBDict_setitem raw_codec ''k'' ''v1'' [(''j'', ''w'')]))
        = Inr ''v1''
   \<and> DBDict_getitem raw_codec ''k''
        (snd (DBDict_setitem raw_codec ''k'' ''v2''
           (snd (DBDict_setitem raw_codec ''k'' ''v1'' [(''j'', ''w'')])))) = Inr ''v2''
   \<and> DBDict_getitem raw_codec ''k'' (snd (DBDict_delitem raw_codec ''k'' [(''k'', ''v1'')]))
        = Inl KeyError
   \<and> DBDict_getitem raw_codec ''k'' [(''j'', ''w'')] = Inl KeyError"
proof -
  note fresh = DBDict_set_get_delete
    [where cd = raw_codec and v = "''v1''" and k = "''k''" and tbl = "[(''j'', ''w'')]"
       and v' = "''v2''"]
  note held = DBDict_set_get_delete
    [where cd = raw_codec and v = "''v1''" and k = "''k''" and tbl = "[(''k'', ''v1'')]"
       and v' = "''v2''"]
  have codec: "value_loads raw_codec (dumps raw_codec ''v1'') = ''v1''"
    "value_loads raw_codec (dumps raw_codec ''v2'') = ''v2''"
    by (simp_all add: raw_codec_def)
  have absent: "dumps raw_codec ''k'' \<notin> fst ` set [(''j'', ''w'')]"
    by (simp add: raw_codec_def)
  from fresh held codec absent show ?thesis by simp
qed

text \<open>
  C5. On the code, with the \<^verbatim>\<open>sqlite3\<close> driver: two sets of distinct keys on an empty
  table succeed and leave two rows, and \<^verbatim>\<open>len\<close> then returns 0, not 2.
\<close>

theorem DBDict_len_sqlite3_is_zero:
  "DBDict_setitem raw_codec ''a'' ''1'' [] = (None, [(''a'', ''1'')])
   \<and> DBDict_setitem raw_codec ''b'' ''2'' [(''a'', ''1'')] = (None, [(''a'', ''1''), (''b'', ''2'')])
   \<and> DBDict_iter raw_codec [(''a'', ''1''), (''b'', ''2'')] = [''a'', ''b'']
   \<and> DBDict_len sqlite3_rowcount [(''a'', ''1''), (''b'', ''2'')] = 0"
  by (simp add: DBDict_setitem_def DBDict_contains_def DBDict_getitem_def select_value_def
      insert_row_def raw_codec_def DBDict_len_def sqlite3_rowcount_def DBDict_iter_def
      select_keys_def)

end
